theory Spec2Isabelle
  imports Main "HOL-Library.Sublist"
begin

section \<open>Go standard library functions used by errchain\<close>

text \<open>
  A Go string is a sequence of bytes, here a \<open>string\<close> (a \<open>char list\<close>).
  The functions of this section are not part of the repository: they are the
  functions of Go's packages \<open>strings\<close>, \<open>go/token\<close> and \<open>go/ast\<close> that
  \<open>errtext.go\<close> calls, written after their documented behaviour.
\<close>

text \<open>\<open>strings.HasPrefix(s, p)\<close> and \<open>strings.HasSuffix(s, p)\<close>.\<close>

definition HasPrefix :: "string \<Rightarrow> string \<Rightarrow> bool" where
  "HasPrefix s p = prefix p s"

definition HasSuffix :: "string \<Rightarrow> string \<Rightarrow> bool" where
  "HasSuffix s p = suffix p s"

text \<open>
  \<open>strings.Index(s, sep)\<close>: the index of the first instance of \<open>sep\<close> in \<open>s\<close>,
  or \<open>-1\<close> if \<open>sep\<close> is not present in \<open>s\<close>.
\<close>

fun Index :: "string \<Rightarrow> string \<Rightarrow> int" where
  "Index [] sep = (if sep = [] then 0 else - 1)"
| "Index (c # s) sep =
     (if prefix sep (c # s) then 0
      else (let r = Index s sep in if r < 0 then - 1 else r + 1))"

text \<open>
  \<open>strings.SplitN(s, sep, n)\<close> for a non-empty \<open>sep\<close> and \<open>n \<ge> 0\<close>: at most
  \<open>n\<close> substrings, the last one being the unsplit remainder; \<open>n = 0\<close> gives
  no substring at all.
\<close>

fun SplitN :: "string \<Rightarrow> string \<Rightarrow> nat \<Rightarrow> string list" where
  "SplitN s sep 0 = []"
| "SplitN s sep (Suc k) =
     (if k = 0 then [s]
      else (let m = Index s sep in
            if m < 0 then [s]
            else take (nat m) s # SplitN (drop (nat m + length sep) s) sep k))"

text \<open>
  \<open>token.IsKeyword\<close> and \<open>token.IsIdentifier\<close>. An identifier is a non-empty
  string that is no keyword, made of letters, underscores and digits, and not
  starting with a digit. Go takes letters, upper-case letters and digits from
  Unicode; the model knows the ASCII ones, which is what every name of the
  test packages uses, and takes any other byte for neither a letter nor a
  digit.
\<close>

definition goKeywords :: "string list" where
  "goKeywords = [''break'', ''case'', ''chan'', ''const'', ''continue'', ''default'',
     ''defer'', ''else'', ''fallthrough'', ''for'', ''func'', ''go'', ''goto'', ''if'',
     ''import'', ''interface'', ''map'', ''package'', ''range'', ''return'', ''select'',
     ''struct'', ''switch'', ''type'', ''var'']"

definition IsKeyword :: "string \<Rightarrow> bool" where
  "IsKeyword name = (name \<in> set goKeywords)"

definition IsUpper :: "char \<Rightarrow> bool" where
  "IsUpper c = (c \<in> set ''ABCDEFGHIJKLMNOPQRSTUVWXYZ'')"

definition IsLetter :: "char \<Rightarrow> bool" where
  "IsLetter c = (IsUpper c \<or> c \<in> set ''abcdefghijklmnopqrstuvwxyz'')"

definition IsDigit :: "char \<Rightarrow> bool" where
  "IsDigit c = (c \<in> set ''0123456789'')"

text \<open>
  The loop of \<open>token.IsIdentifier\<close>: \<open>first\<close> says that the character at hand
  has index 0.
\<close>

fun identChars :: "bool \<Rightarrow> string \<Rightarrow> bool" where
  "identChars first [] = True"
| "identChars first (c # cs) =
     (if \<not> IsLetter c \<and> c \<noteq> CHR ''_'' \<and> (first \<or> \<not> IsDigit c) then False
      else identChars False cs)"

definition IsIdentifier :: "string \<Rightarrow> bool" where
  "IsIdentifier name =
     (if name = [] \<or> IsKeyword name then False else identChars True name)"


section \<open>The syntax tree and the package, as far as errchain reads them\<close>

text \<open>
  Of an expression in type position the checker tells an identifier from a
  pointer type from anything else.
\<close>

datatype expr = Ident string | StarExpr expr | OtherExpr

text \<open>
  \<open>types.Package\<close>: \<open>Name()\<close> is the short name, \<open>Path()\<close> the import path.
\<close>

record package =
  pkgName :: string
  pkgPath :: string

text \<open>
  A node of a function body. Of a call expression the checker reads the name
  \<open>code.CallName\<close> resolves it to, the called expression and the arguments;
  \<open>ConstString\<close> is an expression whose compile-time value is a string
  (\<open>constantValueString\<close> succeeds on these and on no other node); \<open>Other\<close>
  is any other node, with its children.
\<close>

datatype node =
    CallExpr string node "node list"
  | ConstString string
  | Other "node list"



text \<open>
  \<open>ast.FuncDecl\<close>. A field list is the list of the types of its fields; a
  pointer that may be nil is an \<open>option\<close>.
\<close>

record funcType =
  Results :: "expr list option"

record funcDecl =
  Recv :: "expr list option"
  Name :: "string option"
  Type :: "funcType option"
  Body :: "node option"

section \<open>errtext.go\<close>

subsection \<open>Locations and error kinds\<close>

record location =
  pkg :: string
  recv :: string
  fn :: string
  isRecvPtr :: bool

text \<open>The zero value of \<open>location\<close>.\<close>

definition zeroLocation :: location where
  "zeroLocation = \<lparr>pkg = [], recv = [], fn = [], isRecvPtr = False\<rparr>"

text \<open>
  \<open>errorKind\<close> is a string type with eight values of pairwise different text,
  compared by \<open>==\<close>; \<open>Error\<close> gives the text back.
\<close>

datatype errorKind =
    errNoPrefix
  | errPackageMismatch
  | errPrefixDuplicate
  | errInvalidSyntax
  | errFuncNotFound
  | errMethodNotFound
  | errRecieverNotFound
  | errNoPointer

fun Error :: "errorKind \<Rightarrow> string" where
  "Error errNoPrefix = ''no prefix found''"
| "Error errPackageMismatch = ''package name mismatch''"
| "Error errPrefixDuplicate = ''prefix duplicate''"
| "Error errInvalidSyntax = ''syntax is wrong''"
| "Error errFuncNotFound = ''neither func nor struct has been found''"
| "Error errMethodNotFound = ''method not found''"
| "Error errRecieverNotFound = ''reciever not found''"
| "Error errNoPointer = ''reciever has no pointer''"

record prefixError =
  errType :: errorKind
  got :: string
  expect :: string
  parsedPrefix :: location

subsection \<open>errorPrefixes\<close>

text \<open>
  The prefixes a function's error message may start with. The result \<open>nil\<close>
  of the source is the empty list.
\<close>

definition errorPrefixes :: "package \<Rightarrow> funcDecl \<Rightarrow> string list" where
  "errorPrefixes p f =
     (case Name f of
        None \<Rightarrow> []
      | Some name \<Rightarrow>
          (let prefixes = [pkgName p @ '': ''] in
           if Recv f = None \<or> Recv f = Some [] then
             prefixes @ [pkgName p @ ''.'' @ name @ '': '']
           else
             (case hd (the (Recv f)) of
                StarExpr (Ident ident) \<Rightarrow>
                  prefixes @
                  [pkgName p @ ''.'' @ ident @ ''.'' @ name @ '': '',
                   pkgName p @ ''.(*'' @ ident @ '').'' @ name @ '': '',
                   pkgName p @ ''.'' @ ident @ '': '']
              | StarExpr _ \<Rightarrow> []
              | Ident r \<Rightarrow>
                  prefixes @
                  [pkgName p @ ''.'' @ r @ ''.'' @ name @ '': '',
                   pkgName p @ ''.'' @ r @ '': '']
              | OtherExpr \<Rightarrow> [])))"

subsection \<open>recvString\<close>

text \<open>The receiver's type name, and whether the receiver is a pointer.\<close>

definition recvString :: "funcDecl \<Rightarrow> string \<times> bool" where
  "recvString f =
     (if Recv f = None \<or> Recv f = Some [] then ([], False)
      else
        (case hd (the (Recv f)) of
           StarExpr (Ident r) \<Rightarrow> (r, True)
         | StarExpr _ \<Rightarrow> ([], False)
         | Ident r \<Rightarrow> (r, False)
         | OtherExpr \<Rightarrow> ([], False)))"

subsection \<open>parsePrefix\<close>

text \<open>
  The source returns a location and an error; the error \<open>nil\<close> is \<open>None\<close>.
  The location that comes with an error is the one filled in so far, which
  \<open>handleFuncBody\<close> goes on to use.
\<close>

definition parsePrefix :: "string \<Rightarrow> location \<times> errorKind option" where
  "parsePrefix errorMessage =
     (let i = Index errorMessage '': '' in
      if i < 0 then (zeroLocation, Some errNoPrefix)
      else
        (let split = SplitN (take (nat i) errorMessage) ''.'' 4 in
         if length split \<noteq> 1 \<and> length split \<noteq> 2 \<and> length split \<noteq> 3 then
           (zeroLocation\<lparr>pkg := split ! 0, recv := split ! 1, fn := split ! 2\<rparr>,
            Some errInvalidSyntax)
         else
           (let loc =
                  (if length split = 1 then zeroLocation\<lparr>pkg := split ! 0\<rparr>
                   else if length split = 2 then
                     zeroLocation\<lparr>pkg := split ! 0, fn := split ! 1\<rparr>
                   else zeroLocation\<lparr>pkg := split ! 0, recv := split ! 1, fn := split ! 2\<rparr>)
            in
            if recv loc \<noteq> [] \<and> \<not> IsIdentifier (recv loc) then (loc, Some errInvalidSyntax)
            else if fn loc \<noteq> [] \<and> \<not> IsIdentifier (fn loc) then (loc, Some errInvalidSyntax)
            else if HasPrefix (recv loc) ''(*'' then
              (let loc2 = loc\<lparr>recv := drop 2 (recv loc)\<rparr> in
               if HasSuffix (recv loc2) '')'' then
                 (loc2\<lparr>recv := butlast (recv loc2), isRecvPtr := True\<rparr>, None)
               else (loc2, Some errInvalidSyntax))
            else (loc, None))))"

subsection \<open>location.match\<close>

text \<open>
  The result is \<open>Inr None\<close> for the source's \<open>nil\<close> (the prefix matches),
  \<open>Inr (Some e)\<close> for a mismatch and \<open>Inl\<close> for a panic. \<open>dbg\<close> is
  \<open>isDebug()\<close>: the package variable \<open>debug\<close> is set at link time and is
  empty in a plain build.
\<close>

definition unreachable :: "bool \<Rightarrow> string + prefixError option" where
  "unreachable dbg = (if dbg then Inl ''imposible'' else Inr None)"

definition match :: "bool \<Rightarrow> location \<Rightarrow> package \<Rightarrow> funcDecl \<Rightarrow> string + prefixError option" where
  "match dbg loc p f =
     (if pkg loc = [] then
        Inr (Some \<lparr>errType = errNoPrefix, got = pkg loc, expect = pkgName p, parsedPrefix = loc\<rparr>)
      else if \<not> HasSuffix (pkgPath p) (pkg loc) then
        Inr (Some \<lparr>errType = errPackageMismatch, got = pkg loc, expect = pkgName p,
                   parsedPrefix = loc\<rparr>)
      else
        (let (recieverName, isRecieverPointer) = recvString f in
         case Name f of
           None \<Rightarrow> Inl ''nil pointer dereference''
         | Some functionName \<Rightarrow>
             if recv loc = [] \<and> fn loc = [] then Inr None
             else if recv loc = [] \<and> fn loc \<noteq> [] then
               (if fn loc = recieverName then Inr None
                else if fn loc = functionName then Inr None
                else Inr (Some \<lparr>errType = errFuncNotFound, got = fn loc,
                                expect = functionName @ '' or '' @ recieverName,
                                parsedPrefix = loc\<rparr>))
             else if recv loc \<noteq> [] \<and> fn loc \<noteq> [] then
               (if recv loc = recieverName \<and> fn loc \<noteq> functionName then
                  Inr (Some \<lparr>errType = errMethodNotFound, got = fn loc, expect = functionName,
                             parsedPrefix = loc\<rparr>)
                else if recv loc \<noteq> recieverName \<and> fn loc = functionName then
                  Inr (Some \<lparr>errType = errRecieverNotFound, got = recv loc,
                             expect = recieverName, parsedPrefix = loc\<rparr>)
                else if recv loc \<noteq> recieverName \<and> fn loc \<noteq> functionName then
                  Inr (Some \<lparr>errType = errMethodNotFound, got = recv loc @ ''.'' @ fn loc,
                             expect = recieverName @ ''.'' @ functionName, parsedPrefix = loc\<rparr>)
                else if recv loc = recieverName \<and> fn loc = functionName then
                  (if isRecvPtr loc \<and> \<not> isRecieverPointer then
                     Inr (Some \<lparr>errType = errNoPointer, got = ''(*'' @ recv loc @ '')'',
                                expect = recieverName, parsedPrefix = loc\<rparr>)
                   else Inr None)
                else unreachable dbg)
             else unreachable dbg))"

subsection \<open>isReturnsError\<close>


subsection \<open>handleFuncBody\<close>

text \<open>
  A diagnostic. The text \<open>pass.Reportf\<close> gets is \<open>diagnosticMessage\<close>, a colon
  and, for \<open>errNoPrefix\<close>, the recommendation that
  \<open>generatePrefixRecomendations\<close> writes from \<open>errorPrefixes\<close>, for any other
  kind the kind's text. The model keeps the kind and the prefixes recommended.
  (In a debug build \<open>report\<close> also prints a line, which the model leaves out.)
\<close>

record diagnostic =
  kind :: errorKind
  recoms :: "string list"

definition report :: "package \<Rightarrow> funcDecl \<Rightarrow> errorKind \<Rightarrow> diagnostic" where
  "report p parentFunc k =
     \<lparr>kind = k, recoms = (if k = errNoPrefix then errorPrefixes p parentFunc else [])\<rparr>"

text \<open>
  The part of \<open>handleFuncBody\<close> that follows the evaluation of the message
  text: parse the prefix, match it, and report at most one diagnostic.
\<close>

definition checkMessage ::
  "bool \<Rightarrow> package \<Rightarrow> funcDecl \<Rightarrow> string \<Rightarrow> string + diagnostic option" where
  "checkMessage dbg p parentFunc errorMessage =
     (let (prefix, err) = parsePrefix errorMessage;
          matchAndReport =
            (case match dbg prefix p parentFunc of
               Inl panic \<Rightarrow> Inl panic
             | Inr None \<Rightarrow> Inr None
             | Inr (Some e) \<Rightarrow> Inr (Some (report p parentFunc (errType e))))
      in
      case err of
        None \<Rightarrow> matchAndReport
      | Some e \<Rightarrow>
          if e = errNoPrefix then Inr (Some (report p parentFunc errNoPrefix))
          else if e = errInvalidSyntax then
            (case match dbg prefix p parentFunc of
               Inl panic \<Rightarrow> Inl panic
             | Inr None \<Rightarrow> Inr (Some (report p parentFunc errInvalidSyntax))
             | Inr (Some e') \<Rightarrow> Inr (Some (report p parentFunc errNoPrefix)))
          else if dbg then Inl (''unexpected error type: '' @ Error e)
          else matchAndReport)"


subsection \<open>handleFuncDecl\<close>



section \<open>The declarations of the test package aaa\<close>

definition aaa :: package where
  "aaa = \<lparr>pkgName = ''aaa'', pkgPath = ''aaa''\<rparr>"

definition errorResult :: "funcType option" where
  "errorResult = Some \<lparr>Results = Some [Ident ''error'']\<rparr>"

text \<open>\<open>func (x *Struct) Method(input string) (int, error)\<close>\<close>

definition Method :: "node \<Rightarrow> funcDecl" where
  "Method body =
     \<lparr>Recv = Some [StarExpr (Ident ''Struct'')], Name = Some ''Method'',
      Type = Some \<lparr>Results = Some [Ident ''int'', Ident ''error'']\<rparr>, Body = Some body\<rparr>"

text \<open>\<open>func (x Struct) MethodWithoutPointer() error\<close>\<close>

definition MethodWithoutPointer :: "node \<Rightarrow> funcDecl" where
  "MethodWithoutPointer body =
     \<lparr>Recv = Some [Ident ''Struct''], Name = Some ''MethodWithoutPointer'',
      Type = errorResult, Body = Some body\<rparr>"

text \<open>\<open>func PublicFunction() error\<close>\<close>

definition PublicFunction :: "node \<Rightarrow> funcDecl" where
  "PublicFunction body =
     \<lparr>Recv = None, Name = Some ''PublicFunction'', Type = errorResult, Body = Some body\<rparr>"



section \<open>Notions used to state the properties\<close>


text \<open>
  \<open>strings.Contains(s, substr)\<close>, which the source does not call: the
  properties about the separator are stated with it.
\<close>

definition Contains :: "string \<Rightarrow> string \<Rightarrow> bool" where
  "Contains s substr = sublist substr s"

text \<open>
  The dot-separated components of a string: all of them, however many there
  are.
\<close>

fun dotComponents :: "string \<Rightarrow> string list" where
  "dotComponents [] = [[]]"
| "dotComponents (c # s) =
     (if c = CHR ''.'' then [] # dotComponents s
      else (c # hd (dotComponents s)) # tl (dotComponents s))"

text \<open>The package \<open>aaa\<close> of a module, with a longer import path.\<close>

definition moduleAaa :: package where
  "moduleAaa = \<lparr>pkgName = ''aaa'', pkgPath = ''example.com/module/aaa''\<rparr>"

text \<open>
  A package whose name is not the end of its import path, as is usual for a
  versioned module: \<open>package yaml\<close> at \<open>gopkg.in/yaml.v3\<close>.
\<close>

definition yamlV3 :: package where
  "yamlV3 = \<lparr>pkgName = ''yaml'', pkgPath = ''gopkg.in/yaml.v3''\<rparr>"

section \<open>Facts about the test package\<close>

lemma prefixes_Method:
  "errorPrefixes aaa (Method body) =
     [''aaa: '', ''aaa.Struct.Method: '', ''aaa.(*Struct).Method: '', ''aaa.Struct: '']"
  by (simp add: errorPrefixes_def Method_def aaa_def)

lemma Name_Method: "Name (Method body) = Some ''Method''"
  by (simp add: Method_def)

lemma recvString_Method: "recvString (Method body) = (''Struct'', True)"
  by (simp add: recvString_def Method_def)

lemma recvString_MethodWithoutPointer:
  "recvString (MethodWithoutPointer body) = (''Struct'', False)"
  by (simp add: recvString_def MethodWithoutPointer_def)

lemma Name_MethodWithoutPointer:
  "Name (MethodWithoutPointer body) = Some ''MethodWithoutPointer''"
  by (simp add: MethodWithoutPointer_def)

lemma suffix_aaa: "HasSuffix (pkgPath aaa) ''aaa''"
  by (simp add: HasSuffix_def aaa_def)

lemma suffix_moduleAaa: "HasSuffix (pkgPath moduleAaa) ''aaa''"
  by (simp add: HasSuffix_def moduleAaa_def suffix_to_prefix)

lemma path_moduleAaa: "pkgPath moduleAaa = ''example.com/module/aaa''"
  by (simp add: moduleAaa_def)

lemma not_suffix_bbb: "\<not> HasSuffix (pkgPath aaa) ''bbb''"
  by (simp add: HasSuffix_def aaa_def suffix_to_prefix)

lemma match_moduleAaa:
  "match False \<lparr>pkg = ''aaa'', recv = [], fn = ''Method'', isRecvPtr = False\<rparr> moduleAaa
     (Method body) = Inr None"
  by (simp add: match_def suffix_moduleAaa recvString_Method Name_Method)

lemma Name_PublicFunction: "Name (PublicFunction body) = Some ''PublicFunction''"
  by (simp add: PublicFunction_def)

lemma recvString_PublicFunction: "recvString (PublicFunction body) = ([], False)"
  by (simp add: recvString_def PublicFunction_def)

lemma parse_package: "parsePrefix ''aaa: '' = (zeroLocation\<lparr>pkg := ''aaa''\<rparr>, None)"
  by code_simp

lemma parse_type:
  "parsePrefix ''aaa.Struct: '' = (zeroLocation\<lparr>pkg := ''aaa'', fn := ''Struct''\<rparr>, None)"
  by code_simp

lemma parse_method:
  "parsePrefix ''aaa.Struct.Method: '' =
     (\<lparr>pkg = ''aaa'', recv = ''Struct'', fn = ''Method'', isRecvPtr = False\<rparr>, None)"
  by code_simp

lemma parse_method_ok:
  "parsePrefix ''aaa.Struct.Method: ok'' =
     (\<lparr>pkg = ''aaa'', recv = ''Struct'', fn = ''Method'', isRecvPtr = False\<rparr>, None)"
  by code_simp

lemma parse_other_package:
  "parsePrefix ''bbb.Method: error'' =
     (\<lparr>pkg = ''bbb'', recv = [], fn = ''Method'', isRecvPtr = False\<rparr>, None)"
  by code_simp

lemma parse_empty_function:
  "parsePrefix ''aaa.Struct.: error'' =
     (\<lparr>pkg = ''aaa'', recv = ''Struct'', fn = [], isRecvPtr = False\<rparr>, None)"
  by code_simp

lemma no_separator: "\<not> Contains ''input too short'' '': ''"
  by code_simp

lemma separator_unbalanced: "Contains ''aaa.(*Struct.Method: error'' '': ''"
  by code_simp

lemma parse_marked:
  "parsePrefix ''aaa.(*Struct).Method: '' =
     (\<lparr>pkg = ''aaa'', recv = ''(*Struct)'', fn = ''Method'', isRecvPtr = False\<rparr>,
      Some errInvalidSyntax)"
  by code_simp

lemma parse_unbalanced:
  "parsePrefix ''aaa.(*Struct.Method: error'' =
     (\<lparr>pkg = ''aaa'', recv = ''(*Struct'', fn = ''Method'', isRecvPtr = False\<rparr>,
      Some errInvalidSyntax)"
  by code_simp

lemma parse_four_components:
  "parsePrefix ''aaa.Struct.Method.extra: error'' =
     (\<lparr>pkg = ''aaa'', recv = ''Struct'', fn = ''Method'', isRecvPtr = False\<rparr>,
      Some errInvalidSyntax)"
  by code_simp

section \<open>isReturnsError and handleFuncDecl\<close>




section \<open>errorPrefixes\<close>

text \<open>
  C6. For the pointer-receiver method \<open>Method\<close> of \<open>Struct\<close> in package \<open>aaa\<close>
  \<open>errorPrefixes\<close> gives exactly the four prefixes \<open>aaa: \<close>,
  \<open>aaa.Struct.Method: \<close>, \<open>aaa.(*Struct).Method: \<close> and \<open>aaa.Struct: \<close>, in this
  order and without duplicates; for the function \<open>PublicFunction\<close> it gives
  exactly \<open>aaa: \<close> and \<open>aaa.PublicFunction: \<close>.
\<close>

theorem errorPrefixes_aaa:
  "errorPrefixes aaa (Method body) =
     [''aaa: '', ''aaa.Struct.Method: '', ''aaa.(*Struct).Method: '', ''aaa.Struct: '']
   \<and> distinct (errorPrefixes aaa (Method body))
   \<and> errorPrefixes aaa (PublicFunction body') = [''aaa: '', ''aaa.PublicFunction: '']
   \<and> distinct (errorPrefixes aaa (PublicFunction body'))"
  by (simp add: errorPrefixes_def aaa_def Method_def PublicFunction_def)

section \<open>location.match\<close>

text \<open>
  C7. When the package check has passed, the receiver token is empty and the
  function token is not, \<open>match\<close> succeeds if the function token is the
  function's name or the receiver's type name, and otherwise answers
  \<open>errFuncNotFound\<close>, with the function token as \<open>got\<close> and the function name,
  \<open> or \<close> and the receiver's type name as \<open>expect\<close>.
\<close>

theorem match_function_token:
  assumes "pkg loc \<noteq> []" and "HasSuffix (pkgPath p) (pkg loc)"
    and "recv loc = []" and "fn loc \<noteq> []"
    and "Name f = Some functionName"
  shows "match dbg loc p f =
     (if fn loc = functionName \<or> fn loc = fst (recvString f) then Inr None
      else Inr (Some \<lparr>errType = errFuncNotFound, got = fn loc,
                      expect = functionName @ '' or '' @ fst (recvString f),
                      parsedPrefix = loc\<rparr>))"
  using assms by (simp add: match_def split: prod.splits)

theorem match_function_token_witness:
  "match False \<lparr>pkg = ''aaa'', recv = [], fn = ''Struct'', isRecvPtr = False\<rparr> aaa
     (Method (Other [])) = Inr None
   \<and> match False \<lparr>pkg = ''aaa'', recv = [], fn = ''Other'', isRecvPtr = False\<rparr> aaa
     (Method (Other [])) =
     Inr (Some \<lparr>errType = errFuncNotFound, got = ''Other'', expect = ''Method or Struct'',
                parsedPrefix = \<lparr>pkg = ''aaa'', recv = [], fn = ''Other'', isRecvPtr = False\<rparr>\<rparr>)"
  using
    match_function_token
      [of "\<lparr>pkg = ''aaa'', recv = [], fn = ''Struct'', isRecvPtr = False\<rparr>" aaa
          "Method (Other [])" "''Method''" False]
    match_function_token
      [of "\<lparr>pkg = ''aaa'', recv = [], fn = ''Other'', isRecvPtr = False\<rparr>" aaa
          "Method (Other [])" "''Method''" False]
  by (simp add: suffix_aaa Name_Method recvString_Method)

text \<open>
  C2, as the code has it. When the package check has passed and both the
  receiver token and the function token are set and equal the receiver's type
  name and the function's name, \<open>match\<close> answers \<open>errNoPointer\<close> exactly when
  the prefix carries the pointer marker while the receiver of the function is
  not a pointer, and succeeds otherwise: a pointer-receiver method accepts the
  plain and the marked prefix, a value-receiver method only the plain one.
\<close>

theorem match_receiver_and_function:
  assumes "pkg loc \<noteq> []" and "HasSuffix (pkgPath p) (pkg loc)"
    and "Name f = Some functionName"
    and "recv loc \<noteq> []" and "fn loc \<noteq> []"
    and "recv loc = fst (recvString f)" and "fn loc = functionName"
  shows "match dbg loc p f =
     (if isRecvPtr loc \<and> \<not> snd (recvString f) then
        Inr (Some \<lparr>errType = errNoPointer, got = ''(*'' @ recv loc @ '')'',
                   expect = fst (recvString f), parsedPrefix = loc\<rparr>)
      else Inr None)"
  using assms by (simp add: match_def split: prod.splits)

theorem match_receiver_and_function_witness:
  "match False \<lparr>pkg = ''aaa'', recv = ''Struct'', fn = ''Method'', isRecvPtr = True\<rparr> aaa
     (Method (Other [])) = Inr None
   \<and> match False
       \<lparr>pkg = ''aaa'', recv = ''Struct'', fn = ''MethodWithoutPointer'', isRecvPtr = False\<rparr>
       aaa (MethodWithoutPointer (Other [])) = Inr None
   \<and> match True
       \<lparr>pkg = ''aaa'', recv = ''Struct'', fn = ''MethodWithoutPointer'', isRecvPtr = True\<rparr>
       aaa (MethodWithoutPointer (Other [])) =
     Inr (Some \<lparr>errType = errNoPointer, got = ''(*Struct)'', expect = ''Struct'',
                parsedPrefix =
                  \<lparr>pkg = ''aaa'', recv = ''Struct'', fn = ''MethodWithoutPointer'',
                     isRecvPtr = True\<rparr>\<rparr>)"
  using
    match_receiver_and_function
      [of "\<lparr>pkg = ''aaa'', recv = ''Struct'', fn = ''Method'', isRecvPtr = True\<rparr>" aaa
          "Method (Other [])" "''Method''" False]
    match_receiver_and_function
      [of "\<lparr>pkg = ''aaa'', recv = ''Struct'', fn = ''MethodWithoutPointer'',
             isRecvPtr = False\<rparr>" aaa
          "MethodWithoutPointer (Other [])" "''MethodWithoutPointer''" False]
    match_receiver_and_function
      [of "\<lparr>pkg = ''aaa'', recv = ''Struct'', fn = ''MethodWithoutPointer'',
             isRecvPtr = True\<rparr>" aaa
          "MethodWithoutPointer (Other [])" "''MethodWithoutPointer''" True]
  by (simp add: suffix_aaa Name_Method recvString_Method recvString_MethodWithoutPointer
      Name_MethodWithoutPointer)

text \<open>
  C2 as the specification states it fails both ways: the pointer-receiver
  method \<open>Method\<close> with the unmarked location \<open>aaa.Struct.Method\<close> matches
  (the specification says \<open>errNoPointer\<close>), and the value-receiver method
  \<open>MethodWithoutPointer\<close> with the marked location is answered
  \<open>errNoPointer\<close> (the specification says it matches).
\<close>

theorem match_pointer_marker_counterexample:
  "snd (recvString (Method (Other [])))
   \<and> match False \<lparr>pkg = ''aaa'', recv = ''Struct'', fn = ''Method'', isRecvPtr = False\<rparr> aaa
       (Method (Other [])) = Inr None
   \<and> \<not> snd (recvString (MethodWithoutPointer (Other [])))
   \<and> match False
       \<lparr>pkg = ''aaa'', recv = ''Struct'', fn = ''MethodWithoutPointer'', isRecvPtr = True\<rparr>
       aaa (MethodWithoutPointer (Other [])) =
     Inr (Some \<lparr>errType = errNoPointer, got = ''(*Struct)'', expect = ''Struct'',
                parsedPrefix =
                  \<lparr>pkg = ''aaa'', recv = ''Struct'', fn = ''MethodWithoutPointer'',
                     isRecvPtr = True\<rparr>\<rparr>)"
  by (simp add: match_def suffix_aaa recvString_Method recvString_MethodWithoutPointer
      Name_Method Name_MethodWithoutPointer)

section \<open>handleFuncBody\<close>

text \<open>
  C1. The prefix \<open>aaa.(*Struct).Method: \<close> is one that \<open>errorPrefixes\<close>
  recommends for the pointer-receiver method \<open>Method\<close>, but \<open>parsePrefix\<close>
  answers \<open>errInvalidSyntax\<close> on it, leaving the marker in the receiver token,
  and a message that starts with it is reported as having no prefix. The
  other three recommended prefixes are accepted.
\<close>

theorem recommended_marked_prefix_rejected:
  "''aaa.(*Struct).Method: '' \<in> set (errorPrefixes aaa (Method body))
   \<and> parsePrefix ''aaa.(*Struct).Method: '' =
       (\<lparr>pkg = ''aaa'', recv = ''(*Struct)'', fn = ''Method'', isRecvPtr = False\<rparr>,
        Some errInvalidSyntax)
   \<and> match False (fst (parsePrefix ''aaa.(*Struct).Method: '')) aaa (Method body) =
       Inr (Some \<lparr>errType = errRecieverNotFound, got = ''(*Struct)'', expect = ''Struct'',
                  parsedPrefix =
                    \<lparr>pkg = ''aaa'', recv = ''(*Struct)'', fn = ''Method'',
                       isRecvPtr = False\<rparr>\<rparr>)
   \<and> checkMessage False aaa (Method body) ''aaa.(*Struct).Method: '' =
       Inr (Some \<lparr>kind = errNoPrefix, recoms = errorPrefixes aaa (Method body)\<rparr>)
   \<and> checkMessage False aaa (Method body) ''aaa: '' = Inr None
   \<and> checkMessage False aaa (Method body) ''aaa.Struct.Method: '' = Inr None
   \<and> checkMessage False aaa (Method body) ''aaa.Struct: '' = Inr None"
  by (simp add: parse_marked parse_package parse_method parse_type zeroLocation_def
      checkMessage_def match_def recvString_Method suffix_aaa report_def prefixes_Method
      Name_Method)

text \<open>
  The recommended prefixes start with the package name, and \<open>match\<close> tests
  the package token against the end of the import path: where the path does
  not end with the name, no recommended prefix is accepted.
\<close>

lemma recommended_prefix_versioned_path:
  "errorPrefixes yamlV3 (PublicFunction body) = [''yaml: '', ''yaml.PublicFunction: '']
   \<and> checkMessage dbg yamlV3 (PublicFunction body) ''yaml: '' =
       Inr (Some \<lparr>kind = errPackageMismatch, recoms = []\<rparr>)
   \<and> checkMessage dbg yamlV3 (PublicFunction body) ''yaml.PublicFunction: '' =
       Inr (Some \<lparr>kind = errPackageMismatch, recoms = []\<rparr>)"
proof -
  have p1: "parsePrefix ''yaml: '' = (zeroLocation\<lparr>pkg := ''yaml''\<rparr>, None)"
    by code_simp
  have p2: "parsePrefix ''yaml.PublicFunction: '' =
      (zeroLocation\<lparr>pkg := ''yaml'', fn := ''PublicFunction''\<rparr>, None)"
    by code_simp
  have s: "\<not> HasSuffix (pkgPath yamlV3) ''yaml''"
    by (simp add: HasSuffix_def yamlV3_def suffix_to_prefix)
  have e: "errorPrefixes yamlV3 (PublicFunction body) = [''yaml: '', ''yaml.PublicFunction: '']"
    by (simp add: errorPrefixes_def yamlV3_def PublicFunction_def)
  show ?thesis
    by (simp add: e p1 p2 s checkMessage_def match_def report_def zeroLocation_def)
qed

text \<open>
  C3, as the code has it. When \<open>parsePrefix\<close> answers \<open>errInvalidSyntax\<close>, the
  location parsed so far is matched: if it matches, the diagnostic is
  \<open>errInvalidSyntax\<close>; if it does not, the diagnostic is \<open>errNoPrefix\<close> with the
  recommended prefixes. For the method \<open>Method\<close> the message
  \<open>aaa.(*Struct.Method: error\<close> is reported as \<open>errNoPrefix\<close>, and the message
  \<open>aaa.Struct.Method.extra: error\<close> as \<open>errInvalidSyntax\<close>.
\<close>

theorem invalid_syntax_report:
  "(parsePrefix msg = (loc, Some errInvalidSyntax) \<longrightarrow>
      checkMessage dbg p f msg =
        (case match dbg loc p f of
           Inl panic \<Rightarrow> Inl panic
         | Inr None \<Rightarrow> Inr (Some \<lparr>kind = errInvalidSyntax, recoms = []\<rparr>)
         | Inr (Some e) \<Rightarrow> Inr (Some \<lparr>kind = errNoPrefix, recoms = errorPrefixes p f\<rparr>)))
   \<and> checkMessage False aaa (Method body) ''aaa.(*Struct.Method: error'' =
       Inr (Some \<lparr>kind = errNoPrefix, recoms = errorPrefixes aaa (Method body)\<rparr>)
   \<and> checkMessage False aaa (Method body) ''aaa.Struct.Method.extra: error'' =
       Inr (Some \<lparr>kind = errInvalidSyntax, recoms = []\<rparr>)"
proof (intro conjI impI)
  assume "parsePrefix msg = (loc, Some errInvalidSyntax)"
  then show "checkMessage dbg p f msg =
        (case match dbg loc p f of
           Inl panic \<Rightarrow> Inl panic
         | Inr None \<Rightarrow> Inr (Some \<lparr>kind = errInvalidSyntax, recoms = []\<rparr>)
         | Inr (Some e) \<Rightarrow> Inr (Some \<lparr>kind = errNoPrefix, recoms = errorPrefixes p f\<rparr>))"
    by (simp add: checkMessage_def report_def split: sum.splits option.splits)
next
  show "checkMessage False aaa (Method body) ''aaa.(*Struct.Method: error'' =
       Inr (Some \<lparr>kind = errNoPrefix, recoms = errorPrefixes aaa (Method body)\<rparr>)"
    by (simp add: parse_unbalanced checkMessage_def match_def recvString_Method suffix_aaa
        report_def Name_Method)
next
  show "checkMessage False aaa (Method body) ''aaa.Struct.Method.extra: error'' =
       Inr (Some \<lparr>kind = errInvalidSyntax, recoms = []\<rparr>)"
    by (simp add: parse_four_components checkMessage_def match_def recvString_Method suffix_aaa
        report_def Name_Method)
qed

theorem invalid_syntax_report_witness:
  "parsePrefix ''aaa.Struct.Method.extra: error'' =
     (\<lparr>pkg = ''aaa'', recv = ''Struct'', fn = ''Method'', isRecvPtr = False\<rparr>,
      Some errInvalidSyntax)
   \<and> checkMessage True aaa (Method (Other [])) ''aaa.Struct.Method.extra: error'' =
       Inr (Some \<lparr>kind = errInvalidSyntax, recoms = []\<rparr>)"
  using invalid_syntax_report
    [of "''aaa.Struct.Method.extra: error''"
        "\<lparr>pkg = ''aaa'', recv = ''Struct'', fn = ''Method'', isRecvPtr = False\<rparr>"
        True aaa "Method (Other [])" "Other []"]
  by (simp add: parse_four_components match_def recvString_Method suffix_aaa Name_Method)

text \<open>
  C3 as the specification states it fails on its own example: for the method
  \<open>Method\<close> the message \<open>aaa.(*Struct.Method: error\<close> is parsed with
  \<open>errInvalidSyntax\<close>, the location parsed so far does not match, and the
  diagnostic is \<open>errNoPrefix\<close>, not \<open>errInvalidSyntax\<close>.
\<close>

theorem unbalanced_marker_counterexample:
  "snd (parsePrefix ''aaa.(*Struct.Method: error'') = Some errInvalidSyntax
   \<and> match False (fst (parsePrefix ''aaa.(*Struct.Method: error'')) aaa (Method (Other [])) \<noteq>
       Inr None
   \<and> checkMessage False aaa (Method (Other [])) ''aaa.(*Struct.Method: error'' =
       Inr (Some \<lparr>kind = errNoPrefix,
                  recoms = [''aaa: '', ''aaa.Struct.Method: '', ''aaa.(*Struct).Method: '',
                            ''aaa.Struct: '']\<rparr>)"
  by (simp add: parse_unbalanced checkMessage_def match_def recvString_Method suffix_aaa
      report_def prefixes_Method Name_Method)

section \<open>strings.Index and strings.SplitN\<close>

lemma Index_ge: "- 1 \<le> Index s sep"
  by (induction s) (auto simp: Let_def)

lemma Index_neg_iff: "Index s sep < 0 \<longleftrightarrow> \<not> sublist sep s"
proof (induction s)
  case Nil
  show ?case by simp
next
  case (Cons c s)
  have "0 \<le> Index s sep \<Longrightarrow> \<not> Index s sep + 1 < 0" by arith
  with Cons show ?case
    by (auto simp: Let_def sublist_Cons_right)
qed

lemma Index_le_length: "Index s sep \<le> int (length s)"
  by (induction s) (auto simp: Let_def)

lemma dotComponents_Index:
  "dotComponents s =
     (if Index s ''.'' < 0 then [s]
      else take (nat (Index s ''.'')) s # dotComponents (drop (nat (Index s ''.'') + 1) s))"
proof (induction s)
  case Nil
  show ?case by simp
next
  case (Cons c s)
  show ?case
  proof (cases "c = CHR ''.''")
    case True
    then show ?thesis by simp
  next
    case False
    note c = this
    show ?thesis
    proof (cases "Index s ''.'' < 0")
      case True
      with c Cons show ?thesis by (simp add: Let_def)
    next
      case False
      then have "nat (Index s ''.'' + 1) = Suc (nat (Index s ''.''))" by simp
      with False c Cons show ?thesis by (simp add: Let_def)
    qed
  qed
qed

lemma dotComponents_nonempty: "dotComponents s \<noteq> []"
  by (cases s) simp_all

lemma SplitN_short:
  "length (dotComponents s) \<le> n \<Longrightarrow> SplitN s ''.'' n = dotComponents s"
proof (induction n arbitrary: s)
  case 0
  then show ?case by (simp add: dotComponents_nonempty)
next
  case (Suc k)
  show ?case
  proof (cases "Index s ''.'' < 0")
    case True
    then show ?thesis using dotComponents_Index [of s] by simp
  next
    case False
    let ?r = "drop (nat (Index s ''.'') + 1) s"
    from False have dc: "dotComponents s = take (nat (Index s ''.'')) s # dotComponents ?r"
      using dotComponents_Index [of s] by simp
    with Suc.prems have len: "length (dotComponents ?r) \<le> k" by simp
    then have "k \<noteq> 0" using dotComponents_nonempty [of ?r]
      by (cases "dotComponents ?r") auto
    with False dc Suc.IH [OF len] show ?thesis by (simp add: Let_def)
  qed
qed

lemma SplitN_long:
  "n < length (dotComponents s) \<Longrightarrow> 0 < n \<Longrightarrow>
   length (SplitN s ''.'' n) = n \<and> take (n - 1) (SplitN s ''.'' n) = take (n - 1) (dotComponents s)"
proof (induction n arbitrary: s)
  case 0
  then show ?case by simp
next
  case (Suc k)
  show ?case
  proof (cases "k = 0")
    case True
    then show ?thesis by simp
  next
    case False
    note k = this
    have nn: "\<not> Index s ''.'' < 0"
    proof
      assume "Index s ''.'' < 0"
      then have "dotComponents s = [s]" using dotComponents_Index [of s] by simp
      with Suc.prems show False by simp
    qed
    let ?r = "drop (nat (Index s ''.'') + 1) s"
    from nn have dc: "dotComponents s = take (nat (Index s ''.'')) s # dotComponents ?r"
      using dotComponents_Index [of s] by simp
    with Suc.prems have len: "k < length (dotComponents ?r)" by simp
    from k have kpos: "0 < k" by simp
    from Suc.IH [OF len kpos] k nn dc show ?thesis
      by (cases k) (simp_all add: Let_def)
  qed
qed

section \<open>parsePrefix\<close>

text \<open>
  C9. A message that does not contain the separator \<open>: \<close> is not parsed any
  further: \<open>parsePrefix\<close> answers \<open>errNoPrefix\<close> with the zero location, and
  the diagnostic is \<open>errNoPrefix\<close> with the recommended prefixes.
\<close>

theorem no_separator_no_prefix:
  assumes "\<not> Contains msg '': ''"
  shows "parsePrefix msg = (zeroLocation, Some errNoPrefix)
    \<and> checkMessage dbg p f msg = Inr (Some \<lparr>kind = errNoPrefix, recoms = errorPrefixes p f\<rparr>)"
proof -
  from assms have "Index msg '': '' < 0" by (simp add: Index_neg_iff Contains_def)
  then have "parsePrefix msg = (zeroLocation, Some errNoPrefix)"
    by (simp add: parsePrefix_def)
  then show ?thesis by (simp add: checkMessage_def report_def)
qed

theorem no_separator_no_prefix_witness:
  "\<not> Contains ''input too short'' '': ''
   \<and> parsePrefix ''input too short'' = (zeroLocation, Some errNoPrefix)
   \<and> checkMessage False aaa (Method (Other [])) ''input too short'' =
       Inr (Some \<lparr>kind = errNoPrefix,
                  recoms = [''aaa: '', ''aaa.Struct.Method: '', ''aaa.(*Struct).Method: '',
                            ''aaa.Struct: '']\<rparr>)"
  using no_separator_no_prefix [of "''input too short''" False aaa "Method (Other [])"]
  by (simp add: no_separator prefixes_Method)

lemma marker_no_identifier: "HasPrefix r ''(*'' \<Longrightarrow> \<not> IsIdentifier r"
  by (cases r) (simp_all add: HasPrefix_def IsIdentifier_def IsLetter_def IsUpper_def)

lemma parsePrefix_no_pointer: "\<not> isRecvPtr (fst (parsePrefix msg))"
proof -
  have "HasPrefix r ''(*'' \<Longrightarrow> r \<noteq> [] \<and> \<not> IsIdentifier r" for r
    using marker_no_identifier [of r] by (auto simp: HasPrefix_def)
  then show ?thesis
    by (auto simp: parsePrefix_def Let_def zeroLocation_def)
qed


lemma match_NoPointer:
  "match dbg loc p f = Inr (Some e) \<Longrightarrow> errType e = errNoPointer \<Longrightarrow> isRecvPtr loc"
  by (cases "recvString f"; cases "Name f")
    (auto simp: match_def unreachable_def split: if_splits)

lemma checkMessage_kind:
  assumes "checkMessage dbg p f msg = Inr (Some d)"
  shows "kind d = errNoPrefix \<or> kind d = errInvalidSyntax
    \<or> (\<exists>e. match dbg (fst (parsePrefix msg)) p f = Inr (Some e) \<and> kind d = errType e)"
proof (cases "parsePrefix msg")
  case (Pair loc err)
  show ?thesis
  proof (cases "match dbg loc p f")
    case (Inl a)
    with assms Pair show ?thesis
      by (auto simp: checkMessage_def report_def Let_def split: option.splits if_splits)
  next
    case (Inr r)
    with assms Pair show ?thesis
      by (cases r) (auto simp: checkMessage_def report_def Let_def split: option.splits if_splits)
  qed
qed

text \<open>
  C4. Whenever \<open>parsePrefix\<close> returns without an error, the pointer flag of
  the location is false: a receiver token that starts with \<open>(*\<close> is no
  identifier, so the parser has returned \<open>errInvalidSyntax\<close> before it comes
  to strip the marker. Hence \<open>match\<close> never answers \<open>errNoPointer\<close> on a
  parsed location, and no diagnostic of a message has that kind.
\<close>

theorem parsePrefix_never_pointer:
  "(snd (parsePrefix msg) = None \<longrightarrow> \<not> isRecvPtr (fst (parsePrefix msg)))
   \<and> (HasPrefix r ''(*'' \<longrightarrow> \<not> IsIdentifier r)
   \<and> (\<forall>e. match dbg (fst (parsePrefix msg)) p f = Inr (Some e) \<longrightarrow> errType e \<noteq> errNoPointer)
   \<and> (\<forall>d. checkMessage dbg p f msg = Inr (Some d) \<longrightarrow> kind d \<noteq> errNoPointer)"
proof (intro conjI allI impI)
  show "\<not> isRecvPtr (fst (parsePrefix msg))" by (rule parsePrefix_no_pointer)
  show "HasPrefix r ''(*'' \<Longrightarrow> \<not> IsIdentifier r" by (rule marker_no_identifier)
  show m: "errType e \<noteq> errNoPointer" if "match dbg (fst (parsePrefix msg)) p f = Inr (Some e)" for e
    using match_NoPointer [OF that] parsePrefix_no_pointer [of msg] by blast
  show "kind d \<noteq> errNoPointer" if "checkMessage dbg p f msg = Inr (Some d)" for d
    using checkMessage_kind [OF that] m by auto
qed

theorem parsePrefix_never_pointer_witness:
  "snd (parsePrefix ''aaa.Struct.Method: ok'') = None
   \<and> \<not> isRecvPtr (fst (parsePrefix ''aaa.Struct.Method: ok''))
   \<and> HasPrefix ''(*Struct)'' ''(*''
   \<and> \<not> IsIdentifier ''(*Struct)''
   \<and> checkMessage False aaa (Method (Other [])) ''aaa.Struct.Method: ok'' = Inr None"
  using parsePrefix_never_pointer
    [of "''aaa.Struct.Method: ok''" "''(*Struct)''" False aaa "Method (Other [])"]
  by (simp add: parse_method_ok HasPrefix_def checkMessage_def match_def recvString_Method
      suffix_aaa Name_Method)

lemma parsePrefix_found:
  assumes "Contains msg '': ''"
  shows "parsePrefix msg =
     (let split = SplitN (take (nat (Index msg '': '')) msg) ''.'' 4 in
      if length split \<noteq> 1 \<and> length split \<noteq> 2 \<and> length split \<noteq> 3 then
        (\<lparr>pkg = split ! 0, recv = split ! 1, fn = split ! 2, isRecvPtr = False\<rparr>,
         Some errInvalidSyntax)
      else
        (let loc =
               (if length split = 1 then
                  \<lparr>pkg = split ! 0, recv = [], fn = [], isRecvPtr = False\<rparr>
                else if length split = 2 then
                  \<lparr>pkg = split ! 0, recv = [], fn = split ! 1, isRecvPtr = False\<rparr>
                else \<lparr>pkg = split ! 0, recv = split ! 1, fn = split ! 2, isRecvPtr = False\<rparr>)
         in
         if (recv loc \<noteq> [] \<and> \<not> IsIdentifier (recv loc))
            \<or> (fn loc \<noteq> [] \<and> \<not> IsIdentifier (fn loc)) then (loc, Some errInvalidSyntax)
         else (loc, None)))"
proof -
  from assms have i: "\<not> Index msg '': '' < 0" by (simp add: Index_neg_iff Contains_def)
  have m: "HasPrefix r ''(*'' \<Longrightarrow> r \<noteq> [] \<and> \<not> IsIdentifier r" for r
    using marker_no_identifier [of r] by (auto simp: HasPrefix_def)
  show ?thesis
    unfolding parsePrefix_def Let_def zeroLocation_def using i m
    by (auto simp: Let_def)
qed

text \<open>
  What \<open>parsePrefix\<close> returns on a message with a separator, by the number of
  dot-separated components of the text before the first separator: one
  component is the package; two are package and function; three are package,
  receiver and function; with four or more the answer is \<open>errInvalidSyntax\<close>.
  With two or three components the answer is \<open>errInvalidSyntax\<close> exactly
  when a non-empty receiver or function component is no identifier; an empty
  component passes and leaves its token empty.
\<close>

theorem parsePrefix_components:
  assumes "Contains msg '': ''"
  shows "(let comps = dotComponents (take (nat (Index msg '': '')) msg);
              valid = (\<lambda>token. token = [] \<or> IsIdentifier token) in
     (length comps = 1 \<longrightarrow>
        parsePrefix msg =
          (\<lparr>pkg = comps ! 0, recv = [], fn = [], isRecvPtr = False\<rparr>, None))
     \<and> (length comps = 2 \<longrightarrow>
        parsePrefix msg =
          (\<lparr>pkg = comps ! 0, recv = [], fn = comps ! 1, isRecvPtr = False\<rparr>,
           if valid (comps ! 1) then None else Some errInvalidSyntax))
     \<and> (length comps = 3 \<longrightarrow>
        parsePrefix msg =
          (\<lparr>pkg = comps ! 0, recv = comps ! 1, fn = comps ! 2, isRecvPtr = False\<rparr>,
           if valid (comps ! 1) \<and> valid (comps ! 2) then None else Some errInvalidSyntax))
     \<and> (4 \<le> length comps \<longrightarrow>
        parsePrefix msg =
          (\<lparr>pkg = comps ! 0, recv = comps ! 1, fn = comps ! 2, isRecvPtr = False\<rparr>,
           Some errInvalidSyntax)))"
proof -
  let ?s = "take (nat (Index msg '': '')) msg"
  let ?c = "dotComponents ?s"
  have short: "length ?c \<le> 3 \<Longrightarrow> SplitN ?s ''.'' 4 = ?c"
    using SplitN_short [of ?s 4] by simp
  have long: "length (SplitN ?s ''.'' 4) = 4 \<and> take 3 (SplitN ?s ''.'' 4) = take 3 ?c"
    if "4 \<le> length ?c"
  proof (cases "length ?c = 4")
    case True
    then show ?thesis using SplitN_short [of ?s 4] by simp
  next
    case False
    with that have "4 < length ?c" by simp
    then show ?thesis using SplitN_long [of 4 ?s] by simp
  qed
  have nth: "SplitN ?s ''.'' 4 ! k = ?c ! k" if "4 \<le> length ?c" and "k < 3" for k
  proof -
    have "SplitN ?s ''.'' 4 ! k = take 3 (SplitN ?s ''.'' 4) ! k" using that by simp
    also have "\<dots> = take 3 ?c ! k" using long [OF that(1)] by simp
    also have "\<dots> = ?c ! k" using that by simp
    finally show ?thesis .
  qed
  have c1: "length ?c = 1 \<Longrightarrow> parsePrefix msg =
          (\<lparr>pkg = ?c ! 0, recv = [], fn = [], isRecvPtr = False\<rparr>, None)"
    using short by (simp add: parsePrefix_found [OF assms] Let_def)
  have c2: "length ?c = 2 \<Longrightarrow> parsePrefix msg =
          (\<lparr>pkg = ?c ! 0, recv = [], fn = ?c ! 1, isRecvPtr = False\<rparr>,
           if ?c ! 1 = [] \<or> IsIdentifier (?c ! 1) then None else Some errInvalidSyntax)"
    using short by (simp add: parsePrefix_found [OF assms] Let_def)
  have c3: "length ?c = 3 \<Longrightarrow> parsePrefix msg =
          (\<lparr>pkg = ?c ! 0, recv = ?c ! 1, fn = ?c ! 2, isRecvPtr = False\<rparr>,
           if (?c ! 1 = [] \<or> IsIdentifier (?c ! 1)) \<and> (?c ! 2 = [] \<or> IsIdentifier (?c ! 2))
           then None else Some errInvalidSyntax)"
    using short by (simp add: parsePrefix_found [OF assms] Let_def)
  have c4: "4 \<le> length ?c \<Longrightarrow> parsePrefix msg =
          (\<lparr>pkg = ?c ! 0, recv = ?c ! 1, fn = ?c ! 2, isRecvPtr = False\<rparr>,
           Some errInvalidSyntax)"
    using long nth [of 0] nth [of 1] nth [of 2] by (simp add: parsePrefix_found [OF assms] Let_def)
  from c1 c2 c3 c4 show ?thesis by (simp add: Let_def)
qed

text \<open>
  C8. On the message \<open>aaa.Struct.: error\<close> the text before the separator has
  three components, the third of them empty and so no identifier, and
  \<open>parsePrefix\<close> returns without an error a location with a receiver and no
  function. \<open>match\<close> has no case for such a location: it arrives at the end
  that the source marks as unreachable, where it panics in a debug build and
  otherwise answers that the prefix matches, here for a function with no
  receiver at all.
\<close>

theorem empty_function_token_accepted:
  "dotComponents ''aaa.Struct.'' = [''aaa'', ''Struct'', []]
   \<and> \<not> IsIdentifier []
   \<and> parsePrefix ''aaa.Struct.: error'' =
       (\<lparr>pkg = ''aaa'', recv = ''Struct'', fn = [], isRecvPtr = False\<rparr>, None)
   \<and> match True (fst (parsePrefix ''aaa.Struct.: error'')) aaa (PublicFunction body) =
       Inl ''imposible''
   \<and> match False (fst (parsePrefix ''aaa.Struct.: error'')) aaa (PublicFunction body) =
       Inr None
   \<and> checkMessage False aaa (PublicFunction body) ''aaa.Struct.: error'' = Inr None"
  by (simp add: parse_empty_function IsIdentifier_def checkMessage_def match_def
      unreachable_def suffix_aaa Name_PublicFunction recvString_PublicFunction)

section \<open>The package check of location.match\<close>

lemma match_package_mismatch:
  "pkg loc \<noteq> [] \<Longrightarrow> \<not> HasSuffix (pkgPath p) (pkg loc) \<Longrightarrow>
   match dbg loc p f =
     Inr (Some \<lparr>errType = errPackageMismatch, got = pkg loc, expect = pkgName p,
                parsedPrefix = loc\<rparr>)"
  by (simp add: match_def)

lemma match_package_ok:
  assumes "pkg loc \<noteq> []" and "HasSuffix (pkgPath p) (pkg loc)"
    and "match dbg loc p f = Inr (Some e)"
  shows "errType e \<noteq> errPackageMismatch \<and> errType e \<noteq> errNoPrefix"
  using assms
  by (cases "recvString f"; cases "Name f")
    (auto simp: match_def unreachable_def split: if_splits)

text \<open>
  C5. When the package token of a message's parsed prefix is not empty and
  the import path of the package does not end with it, \<open>match\<close> answers
  \<open>errPackageMismatch\<close>, with the token as \<open>got\<close> and the package name as
  \<open>expect\<close>, and that is the diagnostic when the prefix was parsed without
  an error. The test is for a suffix: with a non-empty token that the import
  path ends with, whatever stands before it, the answer is neither
  \<open>errPackageMismatch\<close> nor \<open>errNoPrefix\<close>.
\<close>

theorem package_mismatch:
  "(pkg (fst (parsePrefix msg)) \<noteq> []
      \<and> \<not> HasSuffix (pkgPath p) (pkg (fst (parsePrefix msg))) \<longrightarrow>
      match dbg (fst (parsePrefix msg)) p f =
        Inr (Some \<lparr>errType = errPackageMismatch, got = pkg (fst (parsePrefix msg)),
                   expect = pkgName p, parsedPrefix = fst (parsePrefix msg)\<rparr>)
      \<and> (snd (parsePrefix msg) = None \<longrightarrow>
           checkMessage dbg p f msg =
             Inr (Some \<lparr>kind = errPackageMismatch, recoms = []\<rparr>)))
   \<and> (pkg loc \<noteq> [] \<and> pkgPath p = front @ pkg loc \<longrightarrow>
        HasSuffix (pkgPath p) (pkg loc)
        \<and> (\<forall>e. match dbg loc p f = Inr (Some e) \<longrightarrow>
               errType e \<noteq> errPackageMismatch \<and> errType e \<noteq> errNoPrefix))"
proof (intro conjI impI allI)
  assume a: "pkg (fst (parsePrefix msg)) \<noteq> []
      \<and> \<not> HasSuffix (pkgPath p) (pkg (fst (parsePrefix msg)))"
  then show m: "match dbg (fst (parsePrefix msg)) p f =
        Inr (Some \<lparr>errType = errPackageMismatch, got = pkg (fst (parsePrefix msg)),
                   expect = pkgName p, parsedPrefix = fst (parsePrefix msg)\<rparr>)"
    by (simp add: match_package_mismatch)
  assume "snd (parsePrefix msg) = None"
  with m show "checkMessage dbg p f msg =
      Inr (Some \<lparr>kind = errPackageMismatch, recoms = []\<rparr>)"
    by (cases "parsePrefix msg") (simp add: checkMessage_def report_def)
next
  assume b: "pkg loc \<noteq> [] \<and> pkgPath p = front @ pkg loc"
  then show s: "HasSuffix (pkgPath p) (pkg loc)" by (simp add: HasSuffix_def suffix_def)
  fix e
  assume "match dbg loc p f = Inr (Some e)"
  with b s match_package_ok [of loc p dbg f e]
  show "errType e \<noteq> errPackageMismatch" and "errType e \<noteq> errNoPrefix" by simp_all
qed

theorem package_mismatch_witness:
  "pkg (fst (parsePrefix ''bbb.Method: error'')) = ''bbb''
   \<and> \<not> HasSuffix (pkgPath aaa) ''bbb''
   \<and> checkMessage False aaa (Method (Other [])) ''bbb.Method: error'' =
       Inr (Some \<lparr>kind = errPackageMismatch, recoms = []\<rparr>)
   \<and> pkgPath moduleAaa = ''example.com/module/'' @ ''aaa''
   \<and> match False \<lparr>pkg = ''aaa'', recv = [], fn = ''Method'', isRecvPtr = False\<rparr> moduleAaa
       (Method (Other [])) = Inr None"
  using package_mismatch
    [of "''bbb.Method: error''" aaa False "Method (Other [])"
        "\<lparr>pkg = ''aaa'', recv = [], fn = ''Method'', isRecvPtr = False\<rparr>"
        "''example.com/module/''"]
  by (simp add: parse_other_package not_suffix_bbb path_moduleAaa match_moduleAaa)

end
